theory Spec2Isabelle
  imports Main
begin

section \<open>The in-memory queue (InMemoryQueue)\<close>

text \<open>
  The queue is a \<open>Map\<close> from request ids to records with a status and three optional
  fields. Every method is \<open>async\<close>: its outcome is a promise, which either resolves
  with a value or rejects with an error. The methods mutate the map in place; here
  each one returns its outcome together with the map as it is afterwards.
\<close>

datatype status = Pending | Processing | Completed | Failed

record 'd item =
  status :: status
  data :: "'d option"
  result :: "string option"
  error :: "string option"

type_synonym 'd queue = "string \<rightharpoonup> 'd item"

datatype 'a promise = Resolved 'a | Rejected string

text \<open>\<open>initialize\<close> has an empty body.\<close>

definition initialize :: "'d queue \<Rightarrow> unit promise \<times> 'd queue" where
  "initialize q = (Resolved (), q)"

text \<open>
  \<open>enqueue\<close> is a bare \<open>this.queue.set(requestId, {status: 'pending', data})\<close>:
  the object literal has neither \<open>result\<close> nor \<open>error\<close>.
\<close>

definition enqueue :: "'d queue \<Rightarrow> string \<Rightarrow> 'd \<Rightarrow> unit promise \<times> 'd queue" where
  "enqueue q requestId d =
     (Resolved (),
      q(requestId \<mapsto> \<lparr>status = Pending, data = Some d, result = None, error = None\<rparr>))"

text \<open>
  \<open>getStatus\<close> returns \<open>item?.status || 'pending'\<close>; every status string is
  truthy, so the default is taken exactly when the id has no record.
\<close>

definition getStatus :: "'d queue \<Rightarrow> string \<Rightarrow> status promise" where
  "getStatus q requestId =
     (case q requestId of
        None \<Rightarrow> Resolved Pending
      | Some it \<Rightarrow> Resolved (status it))"

text \<open>
  \<open>complete\<close> and \<open>fail\<close> look the record up and, when there is one, assign two of
  its fields; there is no other branch.
\<close>

definition complete :: "'d queue \<Rightarrow> string \<Rightarrow> string \<Rightarrow> unit promise \<times> 'd queue" where
  "complete q requestId r =
     (case q requestId of
        None \<Rightarrow> (Resolved (), q)
      | Some it \<Rightarrow> (Resolved (), q(requestId \<mapsto> it\<lparr>status := Completed, result := Some r\<rparr>)))"

definition fail :: "'d queue \<Rightarrow> string \<Rightarrow> string \<Rightarrow> unit promise \<times> 'd queue" where
  "fail q requestId e =
     (case q requestId of
        None \<Rightarrow> (Resolved (), q)
      | Some it \<Rightarrow> (Resolved (), q(requestId \<mapsto> it\<lparr>status := Failed, error := Some e\<rparr>)))"

text \<open>\<open>cleanup\<close> clears the map.\<close>

definition cleanup :: "'d queue \<Rightarrow> unit promise \<times> 'd queue" where
  "cleanup q = (Resolved (), Map.empty)"

subsection \<open>Sequences of queue calls\<close>

text \<open>
  A caller holds the queue only through its six methods. A history of the queue is a
  list of calls, run in order on the map; \<open>getStatus\<close> reads and changes nothing.
\<close>

datatype 'd method_call =
    Initialize
  | Enqueue string 'd
  | GetStatus string
  | Complete string string
  | Fail string string
  | Cleanup

fun call :: "'d queue \<Rightarrow> 'd method_call \<Rightarrow> 'd queue" where
  "call q Initialize = snd (initialize q)"
| "call q (Enqueue requestId d) = snd (enqueue q requestId d)"
| "call q (GetStatus requestId) = q"
| "call q (Complete requestId r) = snd (complete q requestId r)"
| "call q (Fail requestId e) = snd (fail q requestId e)"
| "call q Cleanup = snd (cleanup q)"

fun calls :: "'d queue \<Rightarrow> 'd method_call list \<Rightarrow> 'd queue" where
  "calls q [] = q"
| "calls q (c # cs) = calls (call q c) cs"

text \<open>The calls that put a fresh record under an id or drop its record.\<close>

fun resets :: "string \<Rightarrow> 'd method_call \<Rightarrow> bool" where
  "resets requestId (Enqueue k d) = (k = requestId)"
| "resets requestId Cleanup = True"
| "resets requestId c = False"

text \<open>
  The invariant of the table used below: the status \<open>processing\<close> is never stored,
  and a record held as pending has neither result nor error.
\<close>

definition pending_clean :: "'d queue \<Rightarrow> bool" where
  "pending_clean q =
     (\<forall>k it. q k = Some it \<longrightarrow>
        status it \<noteq> Processing \<and> (status it = Pending \<longrightarrow> result it = None \<and> error it = None))"

section \<open>The admission route (POST /process in routes/api.ts)\<close>

text \<open>
  The handler builds the id from \<open>Date.now()\<close> and a base-36 rendering of
  \<open>Math.random()\<close>, enqueues it with the payload \<open>{timestamp: new Date()}\<close> and
  answers with \<open>res.json\<close> (status code 200); a rejected \<open>enqueue\<close> is caught and
  answered with 500. The clock reading, the random suffix and the payload are inputs
  of the model.
\<close>

datatype body = Ack string string | ErrorBody string

record response =
  code :: nat
  body :: body

definition post_process :: "'d queue \<Rightarrow> string \<Rightarrow> string \<Rightarrow> 'd \<Rightarrow> response \<times> 'd queue" where
  "post_process q now rnd payload =
     (let requestId = ''req_'' @ now @ ''_'' @ rnd in
      case enqueue q requestId payload of
        (Resolved u, q') \<Rightarrow> (\<lparr>code = 200, body = Ack requestId ''pending''\<rparr>, q')
      | (Rejected e, q') \<Rightarrow> (\<lparr>code = 500, body = ErrorBody ''Internal server error''\<rparr>, q'))"

section \<open>The socket server (index.ts)\<close>

text \<open>
  The module state is the shared queue, the table \<open>requestQueue\<close> of active workers
  (request id to worker and socket id) and the worker threads created so far. A
  worker is named by its position in \<open>workers\<close>; \<open>new Worker\<close> appends a running one,
  and a worker is terminated once its thread has ended, be it by
  \<open>worker.terminate()\<close> or by the runtime after an uncaught exception.
  \<open>worker.postMessage\<close> is logged in \<open>posted\<close>. The connected sockets and what each
  has been sent stand for the socket.io server \<open>io\<close>.
\<close>

datatype worker_state = Running | Terminated

record process_result =
  pr_id :: string
  pr_status :: string
  pr_result :: string

record 'd server =
  queue :: "'d queue"
  requestQueue :: "string \<rightharpoonup> nat \<times> string"
  workers :: "worker_state list"
  posted :: "(nat \<times> string) list"
  sockets :: "string list"
  delivered :: "string \<Rightarrow> process_result list"

text \<open>
  Modelled from the spec: \<open>io.emit\<close> belongs to the socket.io library, whose code is
  not under src/. Following the spec's \<open>broadcast(event)\<close>, it sends the event once to
  every currently connected subscriber and to nobody else.
\<close>

definition io_emit :: "process_result \<Rightarrow> 'd server \<Rightarrow> 'd server" where
  "io_emit ev srv =
     srv\<lparr>delivered :=
           (\<lambda>s. if s \<in> set (sockets srv) then delivered srv s @ [ev] else delivered srv s)\<rparr>"

definition new_Worker :: "'d server \<Rightarrow> nat \<times> 'd server" where
  "new_Worker srv = (length (workers srv), srv\<lparr>workers := workers srv @ [Running]\<rparr>)"

definition terminate :: "nat \<Rightarrow> 'd server \<Rightarrow> 'd server" where
  "terminate worker srv = srv\<lparr>workers := (workers srv)[worker := Terminated]\<rparr>"

text \<open>
  Modelled from the spec: the worker_threads runtime, which raises a worker's
  \<open>'error'\<close> event, is not under src/. Following the spec's WorkerExecutionError (the
  execution unit "terminates abnormally (crash)") and its transition to failed when
  "the worker crashes/throws", the event is raised for a thread that has already
  ended: the runtime has terminated the worker when the handler starts.
\<close>

definition crashed :: "nat \<Rightarrow> 'd server \<Rightarrow> 'd server" where
  "crashed worker srv = srv\<lparr>workers := (workers srv)[worker := Terminated]\<rparr>"

text \<open>
  The \<open>process-request\<close> handler of a socket. It awaits \<open>queue.getStatus\<close> and tests
  the answer against \<open>'pending'\<close>, but the block of that \<open>if\<close> is empty; the worker is
  created, registered and sent the request after the block, on every path.
\<close>

definition process_request :: "'d server \<Rightarrow> string \<Rightarrow> string \<Rightarrow> 'd server" where
  "process_request srv socketId requestId =
     (case getStatus (queue srv) requestId of
        Rejected e \<Rightarrow> srv
      | Resolved st \<Rightarrow>
          (let srv0 = (if st = Pending then srv else srv);
               (worker, srv1) = new_Worker srv0;
               srv2 = srv1\<lparr>requestQueue := (requestQueue srv1)(requestId \<mapsto> (worker, socketId))\<rparr>
           in srv2\<lparr>posted := posted srv2 @ [(worker, requestId)]\<rparr>))"

text \<open>
  The two handlers registered on the worker just created. Both close over \<open>worker\<close>
  and \<open>requestId\<close>; the message handler works with the id the worker sends back and
  ends with \<open>worker.terminate()\<close>. The error handler makes no such call: it runs on
  the \<open>'error'\<close> event, in the state where the runtime has ended the thread, and
  marks the record failed, broadcasts and deletes the table entry.
\<close>

definition on_message :: "'d server \<Rightarrow> nat \<Rightarrow> string \<Rightarrow> string \<Rightarrow> 'd server" where
  "on_message srv worker response_id response_result =
     (case complete (queue srv) response_id response_result of
        (Rejected e, q') \<Rightarrow> srv\<lparr>queue := q'\<rparr>
      | (Resolved u, q') \<Rightarrow>
          (let srv1 = io_emit \<lparr>pr_id = response_id, pr_status = ''completed'',
                               pr_result = response_result\<rparr> (srv\<lparr>queue := q'\<rparr>);
               srv2 = srv1\<lparr>requestQueue := (requestQueue srv1)(response_id := None)\<rparr>
           in terminate worker srv2))"

definition on_error :: "'d server \<Rightarrow> nat \<Rightarrow> string \<Rightarrow> string \<Rightarrow> 'd server" where
  "on_error srv worker requestId message =
     (let srv0 = crashed worker srv in
      case fail (queue srv0) requestId message of
        (Rejected e, q') \<Rightarrow> srv0\<lparr>queue := q'\<rparr>
      | (Resolved u, q') \<Rightarrow>
          (let srv1 = io_emit \<lparr>pr_id = requestId, pr_status = ''error'',
                               pr_result = ''Error: '' @ message\<rparr> (srv0\<lparr>queue := q'\<rparr>)
           in srv1\<lparr>requestQueue := (requestQueue srv1)(requestId := None)\<rparr>))"

section \<open>Claims about single queue calls\<close>

text \<open>
  C10. For an id with no record in the table, \<open>complete\<close> and \<open>fail\<close> both resolve
  (nothing is thrown) and hand back the very same table: no record is created and
  none is modified.
\<close>

theorem complete_fail_unknown_noop:
  assumes "q requestId = None"
  shows "complete q requestId r = (Resolved (), q) \<and> fail q requestId e = (Resolved (), q)"
  using assms by (simp add: complete_def fail_def)

theorem complete_fail_unknown_noop_witness:
  "(Map.empty(''a'' \<mapsto> \<lparr>status = Pending, data = Some (7::nat), result = None, error = None\<rparr>)) ''b'' = None
   \<and> complete (Map.empty(''a'' \<mapsto> \<lparr>status = Pending, data = Some (7::nat), result = None, error = None\<rparr>)) ''b'' ''r''
       = (Resolved (), Map.empty(''a'' \<mapsto> \<lparr>status = Pending, data = Some 7, result = None, error = None\<rparr>))
   \<and> fail (Map.empty(''a'' \<mapsto> \<lparr>status = Pending, data = Some (7::nat), result = None, error = None\<rparr>)) ''b'' ''e''
       = (Resolved (), Map.empty(''a'' \<mapsto> \<lparr>status = Pending, data = Some 7, result = None, error = None\<rparr>))"
  using complete_fail_unknown_noop
    [of "Map.empty(''a'' \<mapsto> \<lparr>status = Pending, data = Some (7::nat), result = None, error = None\<rparr>)"
        "''b''" "''r''" "''e''"]
  by simp

text \<open>
  C2 (as stated): for an id that was never enqueued, \<open>getStatus\<close> fails with
  NotFoundError rather than returning a status. On the empty table the call resolves
  with \<open>pending\<close>; it does not reject.
\<close>

theorem getStatus_unknown_counterexample:
  "getStatus (Map.empty :: nat queue) ''ghost'' = Resolved Pending
   \<and> getStatus (Map.empty :: nat queue) ''ghost'' \<noteq> Rejected ''NotFoundError''"
  by (simp add: getStatus_def)

text \<open>
  C2 (amended): for every id with no record in the table, \<open>getStatus\<close> resolves with
  the status \<open>pending\<close>; no error is raised.
\<close>

theorem getStatus_unknown_pending:
  assumes "q requestId = None"
  shows "getStatus q requestId = Resolved Pending"
  using assms by (simp add: getStatus_def)

theorem getStatus_unknown_pending_witness:
  "snd (enqueue Map.empty ''a'' (7::nat)) ''b'' = None
   \<and> getStatus (snd (enqueue Map.empty ''a'' (7::nat))) ''b'' = Resolved Pending"
  using getStatus_unknown_pending [of "snd (enqueue Map.empty ''a'' (7::nat))" "''b''"]
  by (simp add: enqueue_def)

text \<open>
  C3 (as stated): enqueueing an id that is already in the table fails with
  DuplicateIdError and leaves the existing record alone. Here the id \<open>a\<close> holds a
  completed record with payload 1; enqueueing \<open>a\<close> again with payload 2 resolves and
  the record is now a fresh pending one with payload 2 and no result.
\<close>

theorem enqueue_duplicate_counterexample:
  "enqueue [''a'' \<mapsto> \<lparr>status = Completed, data = Some (1::nat), result = Some ''r'', error = None\<rparr>]
           ''a'' 2
   = (Resolved (),
      [''a'' \<mapsto> \<lparr>status = Pending, data = Some 2, result = None, error = None\<rparr>])"
  by (simp add: enqueue_def)

text \<open>
  C3 (amended): enqueueing an id that is already in the table does not fail; it
  replaces the existing record by a fresh one with status \<open>pending\<close>, the new
  payload and neither result nor error, and leaves the records of all other ids
  as they were.
\<close>

theorem enqueue_existing_overwrites:
  assumes "q requestId = Some old"
  shows "fst (enqueue q requestId d) = Resolved ()
     \<and> snd (enqueue q requestId d) requestId
         = Some \<lparr>status = Pending, data = Some d, result = None, error = None\<rparr>
     \<and> (\<forall>k. k \<noteq> requestId \<longrightarrow> snd (enqueue q requestId d) k = q k)"
  by (simp add: enqueue_def)

theorem enqueue_existing_overwrites_witness:
  "[''a'' \<mapsto> \<lparr>status = Failed, data = Some (1::nat), result = None, error = Some ''e''\<rparr>] ''a''
     = Some \<lparr>status = Failed, data = Some 1, result = None, error = Some ''e''\<rparr>
   \<and> fst (enqueue [''a'' \<mapsto> \<lparr>status = Failed, data = Some (1::nat), result = None, error = Some ''e''\<rparr>] ''a'' 2)
     = Resolved ()
   \<and> snd (enqueue [''a'' \<mapsto> \<lparr>status = Failed, data = Some (1::nat), result = None, error = Some ''e''\<rparr>] ''a'' 2) ''a''
     = Some \<lparr>status = Pending, data = Some 2, result = None, error = None\<rparr>"
  using enqueue_existing_overwrites
    [of "[''a'' \<mapsto> \<lparr>status = Failed, data = Some (1::nat), result = None, error = Some ''e''\<rparr>]"
        "''a''" "\<lparr>status = Failed, data = Some (1::nat), result = None, error = Some ''e''\<rparr>" 2]
  by simp

text \<open>
  C1 (as stated): on a record that is already completed or failed, a further
  \<open>complete\<close> or \<open>fail\<close> leaves status, result and error unchanged. A failed record
  that is then completed becomes completed and gains a result (its error stays), and
  a completed record that is completed again with another value has its result
  replaced.
\<close>

theorem terminal_idempotent_counterexample:
  "snd (complete [''a'' \<mapsto> \<lparr>status = Failed, data = Some (1::nat), result = None, error = Some ''e''\<rparr>]
          ''a'' ''r'')
     = [''a'' \<mapsto> \<lparr>status = Completed, data = Some 1, result = Some ''r'', error = Some ''e''\<rparr>]
   \<and> snd (complete [''a'' \<mapsto> \<lparr>status = Completed, data = Some (1::nat), result = Some ''r'', error = None\<rparr>]
          ''a'' ''s'')
     = [''a'' \<mapsto> \<lparr>status = Completed, data = Some 1, result = Some ''s'', error = None\<rparr>]"
  by (simp add: complete_def)

text \<open>
  C1 (amended): on a record that is already completed or failed, a further
  \<open>complete\<close> or \<open>fail\<close> never throws, but it is applied like the first one:
  \<open>complete\<close> sets the status to completed and the result to its argument and keeps
  the error, \<open>fail\<close> sets the status to failed and the error to its argument and keeps
  the result. The record is left unchanged only when the call repeats the last
  one: \<open>complete\<close> with the result the completed record already holds, or \<open>fail\<close> with the
  error the failed record already holds.
\<close>

theorem terminal_transition_overwrites:
  assumes "q requestId = Some it"
    and "status it = Completed \<or> status it = Failed"
  shows "complete q requestId r
           = (Resolved (), q(requestId \<mapsto> it\<lparr>status := Completed, result := Some r\<rparr>))
     \<and> fail q requestId e
           = (Resolved (), q(requestId \<mapsto> it\<lparr>status := Failed, error := Some e\<rparr>))
     \<and> (status it = Completed \<and> result it = Some r \<longrightarrow> snd (complete q requestId r) = q)
     \<and> (status it = Failed \<and> error it = Some e \<longrightarrow> snd (fail q requestId e) = q)"
proof -
  have upd: "complete q requestId r
               = (Resolved (), q(requestId \<mapsto> it\<lparr>status := Completed, result := Some r\<rparr>))"
            "fail q requestId e
               = (Resolved (), q(requestId \<mapsto> it\<lparr>status := Failed, error := Some e\<rparr>))"
    using assms(1) by (simp_all add: complete_def fail_def)
  have same_c: "snd (complete q requestId r) = q"
    if "status it = Completed \<and> result it = Some r"
  proof -
    from that have "it\<lparr>status := Completed, result := Some r\<rparr> = it" by simp
    with upd(1) assms(1) show ?thesis by (simp add: map_upd_triv)
  qed
  have same_f: "snd (fail q requestId e) = q"
    if "status it = Failed \<and> error it = Some e"
  proof -
    from that have "it\<lparr>status := Failed, error := Some e\<rparr> = it" by simp
    with upd(2) assms(1) show ?thesis by (simp add: map_upd_triv)
  qed
  from upd same_c same_f show ?thesis by blast
qed

theorem terminal_transition_overwrites_witness:
  "[''a'' \<mapsto> \<lparr>status = Failed, data = Some (1::nat), result = None, error = Some ''e''\<rparr>] ''a''
     = Some \<lparr>status = Failed, data = Some 1, result = None, error = Some ''e''\<rparr>
   \<and> complete [''a'' \<mapsto> \<lparr>status = Failed, data = Some (1::nat), result = None, error = Some ''e''\<rparr>] ''a'' ''r''
     = (Resolved (),
        [''a'' \<mapsto> \<lparr>status = Completed, data = Some 1, result = Some ''r'', error = Some ''e''\<rparr>])
   \<and> snd (fail [''a'' \<mapsto> \<lparr>status = Failed, data = Some (1::nat), result = None, error = Some ''e''\<rparr>] ''a'' ''e'')
     = [''a'' \<mapsto> \<lparr>status = Failed, data = Some 1, result = None, error = Some ''e''\<rparr>]"
  using terminal_transition_overwrites
    [of "[''a'' \<mapsto> \<lparr>status = Failed, data = Some (1::nat), result = None, error = Some ''e''\<rparr>]"
        "''a''" "\<lparr>status = Failed, data = Some (1::nat), result = None, error = Some ''e''\<rparr>"
        "''r''" "''e''"]
  by simp

section \<open>Claims about histories of queue calls\<close>

text \<open>The empty table satisfies the invariant and every method keeps it.\<close>

lemma pending_clean_empty: "pending_clean Map.empty"
  by (simp add: pending_clean_def)

lemma pending_clean_call:
  assumes "pending_clean q"
  shows "pending_clean (call q c)"
proof (cases c)
  case (Enqueue k d)
  with assms show ?thesis by (auto simp: pending_clean_def enqueue_def)
next
  case (Complete k r)
  with assms show ?thesis
    by (auto simp: pending_clean_def complete_def split: option.splits if_splits)
next
  case (Fail k e)
  with assms show ?thesis
    by (auto simp: pending_clean_def fail_def split: option.splits if_splits)
qed (use assms in \<open>simp_all add: pending_clean_def initialize_def cleanup_def\<close>)

lemma pending_clean_calls:
  assumes "pending_clean q"
  shows "pending_clean (calls q cs)"
  using assms by (induction cs arbitrary: q) (simp_all add: pending_clean_call)

text \<open>
  C4 (as stated): after every sequence of queue operations no record has both result
  and error set. Enqueue, then complete, then fail on the same id leaves a failed
  record that holds the result of the first call and the error of the second.
\<close>

theorem result_error_exclusive_counterexample:
  "calls Map.empty [Enqueue ''a'' (1::nat), Complete ''a'' ''r'', Fail ''a'' ''e'']
     = [''a'' \<mapsto> \<lparr>status = Failed, data = Some 1, result = Some ''r'', error = Some ''e''\<rparr>]"
  by (simp add: enqueue_def complete_def fail_def)

text \<open>
  C4 (amended): after every sequence of queue operations on a queue that starts
  empty, every record whose status is pending or processing has neither result nor
  error set. (A completed or failed record may hold both.)
\<close>

theorem pending_record_has_no_outcome:
  assumes "calls Map.empty cs requestId = Some it"
    and "status it = Pending \<or> status it = Processing"
  shows "result it = None \<and> error it = None"
proof -
  have "pending_clean (calls (Map.empty :: 'a queue) cs)"
    by (rule pending_clean_calls) (rule pending_clean_empty)
  with assms show ?thesis unfolding pending_clean_def by blast
qed

theorem pending_record_has_no_outcome_witness:
  "calls Map.empty [Enqueue ''a'' (1::nat), Complete ''a'' ''r'', Fail ''a'' ''e'', Enqueue ''a'' 2] ''a''
     = Some \<lparr>status = Pending, data = Some 2, result = None, error = None\<rparr>
   \<and> result \<lparr>status = Pending, data = Some (2::nat), result = None, error = None\<rparr> = None
   \<and> error \<lparr>status = Pending, data = Some (2::nat), result = None, error = None\<rparr> = None"
proof -
  have run: "calls Map.empty [Enqueue ''a'' (1::nat), Complete ''a'' ''r'', Fail ''a'' ''e'', Enqueue ''a'' 2] ''a''
     = Some \<lparr>status = Pending, data = Some 2, result = None, error = None\<rparr>"
    by (simp add: enqueue_def complete_def fail_def)
  have st: "status \<lparr>status = Pending, data = Some (2::nat), result = None, error = None\<rparr> = Pending
            \<or> status \<lparr>status = Pending, data = Some (2::nat), result = None, error = None\<rparr> = Processing"
    by simp
  from pending_record_has_no_outcome [OF run st] run show ?thesis by simp
qed

text \<open>
  A terminal answer of \<open>getStatus\<close> survives every call that neither enqueues the
  same id nor clears the table.
\<close>

lemma terminal_call:
  assumes "getStatus q requestId = Resolved Completed \<or> getStatus q requestId = Resolved Failed"
    and "\<not> resets requestId c"
  shows "getStatus (call q c) requestId = Resolved Completed
       \<or> getStatus (call q c) requestId = Resolved Failed"
proof (cases c)
  case (Enqueue k d)
  with assms show ?thesis by (auto simp: getStatus_def enqueue_def split: option.splits)
next
  case (Complete k r)
  with assms show ?thesis by (auto simp: getStatus_def complete_def split: option.splits)
next
  case (Fail k e)
  with assms show ?thesis by (auto simp: getStatus_def fail_def split: option.splits)
qed (use assms in \<open>simp_all add: initialize_def\<close>)

text \<open>
  C5 (as stated): once a record is completed or failed, no later enqueue, complete
  or fail returns it to pending or processing, and it never holds the other
  terminal status. A failed record that is completed reads completed, and enqueueing
  its id again makes it read pending.
\<close>

theorem status_monotonic_counterexample:
  "getStatus (calls Map.empty [Enqueue ''a'' (1::nat), Fail ''a'' ''e'']) ''a'' = Resolved Failed
   \<and> getStatus (calls Map.empty [Enqueue ''a'' (1::nat), Fail ''a'' ''e'', Complete ''a'' ''r'']) ''a''
       = Resolved Completed
   \<and> getStatus (calls Map.empty [Enqueue ''a'' (1::nat), Fail ''a'' ''e'', Complete ''a'' ''r'',
                                  Enqueue ''a'' 2]) ''a''
       = Resolved Pending"
  by (simp add: getStatus_def enqueue_def complete_def fail_def)

text \<open>
  C5 (amended): once a record reads completed or failed, it keeps reading completed
  or failed across every later sequence of queue calls that does not enqueue the
  same id again (and does not clear the table): no complete or fail, on any id, and
  no enqueue of another id returns it to pending or processing. Which of the two
  terminal statuses it reads may still change.
\<close>

theorem terminal_stays_terminal:
  assumes "getStatus q requestId = Resolved Completed \<or> getStatus q requestId = Resolved Failed"
    and "\<forall>c \<in> set cs. \<not> resets requestId c"
  shows "getStatus (calls q cs) requestId = Resolved Completed
       \<or> getStatus (calls q cs) requestId = Resolved Failed"
  using assms
proof (induction cs arbitrary: q)
  case Nil
  then show ?case by simp
next
  case (Cons c cs)
  from Cons.prems have "getStatus (call q c) requestId = Resolved Completed
       \<or> getStatus (call q c) requestId = Resolved Failed"
    by (intro terminal_call) simp_all
  moreover from Cons.prems have "\<forall>c \<in> set cs. \<not> resets requestId c" by simp
  ultimately show ?case using Cons.IH by simp
qed

theorem terminal_stays_terminal_witness:
  "getStatus [''a'' \<mapsto> \<lparr>status = Completed, data = Some (1::nat), result = Some ''r'', error = None\<rparr>] ''a''
     = Resolved Completed
   \<and> list_all (\<lambda>c. \<not> resets ''a'' c)
         [Fail ''a'' ''e'', Enqueue ''b'' (2::nat), Complete ''b'' ''s'', GetStatus ''a'']
   \<and> getStatus (calls [''a'' \<mapsto> \<lparr>status = Completed, data = Some (1::nat), result = Some ''r'', error = None\<rparr>]
                  [Fail ''a'' ''e'', Enqueue ''b'' 2, Complete ''b'' ''s'', GetStatus ''a'']) ''a''
     = Resolved Failed"
proof -
  have st: "getStatus [''a'' \<mapsto> \<lparr>status = Completed, data = Some (1::nat), result = Some ''r'', error = None\<rparr>] ''a''
     = Resolved Completed"
    by (simp add: getStatus_def)
  have ok: "\<forall>c \<in> set [Fail ''a'' ''e'', Enqueue ''b'' (2::nat), Complete ''b'' ''s'', GetStatus ''a''].
         \<not> resets ''a'' c"
    by simp
  have "getStatus (calls [''a'' \<mapsto> \<lparr>status = Completed, data = Some (1::nat), result = Some ''r'', error = None\<rparr>]
                  [Fail ''a'' ''e'', Enqueue ''b'' 2, Complete ''b'' ''s'', GetStatus ''a'']) ''a''
     \<noteq> Resolved Completed"
    by (simp add: getStatus_def enqueue_def complete_def fail_def)
  with terminal_stays_terminal [OF disjI1 [OF st] ok] st show ?thesis by simp
qed

section \<open>Claims about admission\<close>

text \<open>
  C8 (as stated): every POST /process request generates a fresh id. The id is
  \<open>req_\<close>, the clock reading, \<open>_\<close> and the random suffix, and nothing compares it
  with the table: with the reading 5 and the suffix \<open>k\<close>, an admission into a table
  that already holds the completed record \<open>req_5_k\<close> answers 200 and pending with
  that same id and puts a fresh pending record in the place of the completed one.
\<close>

theorem post_process_id_counterexample:
  "[''req_5_k'' \<mapsto> \<lparr>status = Completed, data = Some (1::nat), result = Some ''r'', error = None\<rparr>]
       ''req_5_k''
     = Some \<lparr>status = Completed, data = Some 1, result = Some ''r'', error = None\<rparr>
   \<and> post_process
        [''req_5_k'' \<mapsto> \<lparr>status = Completed, data = Some (1::nat), result = Some ''r'', error = None\<rparr>]
        ''5'' ''k'' 2
     = (\<lparr>code = 200, body = Ack ''req_5_k'' ''pending''\<rparr>,
        [''req_5_k'' \<mapsto> \<lparr>status = Pending, data = Some 2, result = None, error = None\<rparr>])"
  by (simp add: post_process_def enqueue_def Let_def)

text \<open>
  C8 (amended): every POST /process request builds its id from the clock reading and
  a random suffix, without checking it against the table, so the id need not be
  fresh. Whatever that id is and whatever the table holds, the handler enqueues it,
  answers at once with code 200 and body \<open>{id, status: "pending"}\<close>, and the table
  then holds a fresh pending record under the id (in the place of any record that
  was there), so that \<open>getStatus\<close> on it answers \<open>pending\<close>.
\<close>

theorem post_process_pending:
  "fst (post_process q now rnd payload)
     = \<lparr>code = 200, body = Ack (''req_'' @ now @ ''_'' @ rnd) ''pending''\<rparr>
   \<and> snd (post_process q now rnd payload) (''req_'' @ now @ ''_'' @ rnd)
     = Some \<lparr>status = Pending, data = Some payload, result = None, error = None\<rparr>
   \<and> getStatus (snd (post_process q now rnd payload)) (''req_'' @ now @ ''_'' @ rnd)
     = Resolved Pending"
  by (simp add: post_process_def enqueue_def getStatus_def Let_def)

section \<open>Claims about the socket server\<close>

text \<open>The \<open>process-request\<close> handler starts a worker whatever the queue answers.\<close>

lemma process_request_always_starts:
  "workers (process_request srv socketId requestId) = workers srv @ [Running]
   \<and> requestQueue (process_request srv socketId requestId) requestId
       = Some (length (workers srv), socketId)
   \<and> posted (process_request srv socketId requestId)
       = posted srv @ [(length (workers srv), requestId)]"
  by (simp add: process_request_def getStatus_def new_Worker_def Let_def split: option.splits)

text \<open>
  C6. A worker is to be started only for an id that the queue knows and holds as
  pending. The handler, run for the id \<open>a\<close> whose record is completed, starts worker 0
  all the same, registers it under \<open>a\<close> and posts the request to it; so it does for
  the id \<open>zz\<close>, which the queue does not know.
\<close>

theorem process_request_ignores_status:
  "getStatus (queue \<lparr>queue = [''a'' \<mapsto> \<lparr>status = Completed, data = Some (1::nat),
                                          result = Some ''r'', error = None\<rparr>],
                     requestQueue = Map.empty, workers = [], posted = [],
                     sockets = [''s1''], delivered = (\<lambda>s. [])\<rparr>) ''a''
     = Resolved Completed
   \<and> workers (process_request
        \<lparr>queue = [''a'' \<mapsto> \<lparr>status = Completed, data = Some (1::nat),
                              result = Some ''r'', error = None\<rparr>],
         requestQueue = Map.empty, workers = [], posted = [],
         sockets = [''s1''], delivered = (\<lambda>s. [])\<rparr> ''s1'' ''a'')
     = [Running]
   \<and> requestQueue (process_request
        \<lparr>queue = [''a'' \<mapsto> \<lparr>status = Completed, data = Some (1::nat),
                              result = Some ''r'', error = None\<rparr>],
         requestQueue = Map.empty, workers = [], posted = [],
         sockets = [''s1''], delivered = (\<lambda>s. [])\<rparr> ''s1'' ''a'') ''a''
     = Some (0, ''s1'')
   \<and> posted (process_request
        \<lparr>queue = [''a'' \<mapsto> \<lparr>status = Completed, data = Some (1::nat),
                              result = Some ''r'', error = None\<rparr>],
         requestQueue = Map.empty, workers = [], posted = [],
         sockets = [''s1''], delivered = (\<lambda>s. [])\<rparr> ''s1'' ''a'')
     = [(0, ''a'')]
   \<and> workers (process_request
        \<lparr>queue = [''a'' \<mapsto> \<lparr>status = Completed, data = Some (1::nat),
                              result = Some ''r'', error = None\<rparr>],
         requestQueue = Map.empty, workers = [], posted = [],
         sockets = [''s1''], delivered = (\<lambda>s. [])\<rparr> ''s1'' ''zz'')
     = [Running]"
  by (simp add: process_request_def getStatus_def new_Worker_def Let_def)

text \<open>
  C7. After a dispatched worker reports its outcome, the worker is terminated and its
  id is no longer in the table of active workers, on the success path (where the
  handler terminates it) and on the error path (where the event comes from a thread
  that the runtime has ended) alike.
\<close>

theorem worker_released_after_outcome:
  assumes "worker < length (workers srv)"
  shows "workers (on_message srv worker requestId r) ! worker = Terminated
       \<and> requestQueue (on_message srv worker requestId r) requestId = None
       \<and> workers (on_error srv worker requestId message) ! worker = Terminated
       \<and> requestQueue (on_error srv worker requestId message) requestId = None"
proof -
  have msg: "workers (on_message srv worker requestId r) = (workers srv)[worker := Terminated]"
            "requestQueue (on_message srv worker requestId r) requestId = None"
    by (simp_all add: on_message_def complete_def io_emit_def terminate_def Let_def
          split: option.splits)
  have err: "workers (on_error srv worker requestId message) = (workers srv)[worker := Terminated]"
            "requestQueue (on_error srv worker requestId message) requestId = None"
    by (simp_all add: on_error_def crashed_def fail_def io_emit_def Let_def
          split: option.splits)
  from assms msg err show ?thesis by simp
qed

theorem worker_released_after_outcome_witness:
  "(0::nat) < length (workers
        \<lparr>queue = [''a'' \<mapsto> \<lparr>status = Pending, data = Some (1::nat),
                              result = None, error = None\<rparr>],
         requestQueue = [''a'' \<mapsto> (0, ''s1'')], workers = [Running], posted = [(0, ''a'')],
         sockets = [''s1''], delivered = (\<lambda>s. [])\<rparr>)
   \<and> workers (on_message
        \<lparr>queue = [''a'' \<mapsto> \<lparr>status = Pending, data = Some (1::nat),
                              result = None, error = None\<rparr>],
         requestQueue = [''a'' \<mapsto> (0, ''s1'')], workers = [Running], posted = [(0, ''a'')],
         sockets = [''s1''], delivered = (\<lambda>s. [])\<rparr> 0 ''a'' ''done'') ! 0
     = Terminated
   \<and> requestQueue (on_error
        \<lparr>queue = [''a'' \<mapsto> \<lparr>status = Pending, data = Some (1::nat),
                              result = None, error = None\<rparr>],
         requestQueue = [''a'' \<mapsto> (0, ''s1'')], workers = [Running], posted = [(0, ''a'')],
         sockets = [''s1''], delivered = (\<lambda>s. [])\<rparr> 0 ''a'' ''boom'') ''a''
     = None
   \<and> workers (on_error
        \<lparr>queue = [''a'' \<mapsto> \<lparr>status = Pending, data = Some (1::nat),
                              result = None, error = None\<rparr>],
         requestQueue = [''a'' \<mapsto> (0, ''s1'')], workers = [Running], posted = [(0, ''a'')],
         sockets = [''s1''], delivered = (\<lambda>s. [])\<rparr> 0 ''a'' ''boom'') ! 0
     = Terminated"
  using worker_released_after_outcome
    [of 0
        "\<lparr>queue = [''a'' \<mapsto> \<lparr>status = Pending, data = Some (1::nat),
                              result = None, error = None\<rparr>],
         requestQueue = [''a'' \<mapsto> (0, ''s1'')], workers = [Running], posted = [(0, ''a'')],
         sockets = [''s1''], delivered = (\<lambda>s. [])\<rparr>"
        "''a''" "''done''" "''boom''"]
  by simp

text \<open>
  C9. When the message handler reports a completion, every connected subscriber is
  sent exactly one \<open>process-result\<close> event more than it had, and that event carries
  the task's id, the status \<open>completed\<close> and the result.
\<close>

theorem completion_fan_out:
  assumes "s \<in> set (sockets srv)"
  shows "delivered (on_message srv worker response_id response_result) s
       = delivered srv s
         @ [\<lparr>pr_id = response_id, pr_status = ''completed'', pr_result = response_result\<rparr>]"
  using assms
  by (simp add: on_message_def complete_def io_emit_def terminate_def Let_def split: option.splits)

theorem completion_fan_out_witness:
  "''s2'' \<in> set (sockets
        \<lparr>queue = [''a'' \<mapsto> \<lparr>status = Pending, data = Some (1::nat),
                              result = None, error = None\<rparr>],
         requestQueue = [''a'' \<mapsto> (0, ''s1'')], workers = [Running], posted = [(0, ''a'')],
         sockets = [''s1'', ''s2'', ''s3''], delivered = (\<lambda>s. [])\<rparr>)
   \<and> delivered (on_message
        \<lparr>queue = [''a'' \<mapsto> \<lparr>status = Pending, data = Some (1::nat),
                              result = None, error = None\<rparr>],
         requestQueue = [''a'' \<mapsto> (0, ''s1'')], workers = [Running], posted = [(0, ''a'')],
         sockets = [''s1'', ''s2'', ''s3''], delivered = (\<lambda>s. [])\<rparr> 0 ''a'' ''done'') ''s2''
     = [\<lparr>pr_id = ''a'', pr_status = ''completed'', pr_result = ''done''\<rparr>]"
  using completion_fan_out
    [of "''s2''"
        "\<lparr>queue = [''a'' \<mapsto> \<lparr>status = Pending, data = Some (1::nat),
                              result = None, error = None\<rparr>],
         requestQueue = [''a'' \<mapsto> (0, ''s1'')], workers = [Running], posted = [(0, ''a'')],
         sockets = [''s1'', ''s2'', ''s3''], delivered = (\<lambda>s. [])\<rparr>"
        0 "''a''" "''done''"]
  by simp

end
